theory Spec2Isabelle
  imports Complex_Main
begin

section \<open>JavaScript numbers\<close>

text \<open>
  A JavaScript number is an IEEE 754 double. A finite value other than zero
  is \<open>Num q\<close> with \<open>q\<close> the rational number the double stands for; \<open>Num 0\<close> is
  \<open>+0\<close> and \<open>NegZero\<close> is \<open>-0\<close>; the other values are the two infinities and
  \<open>NaN\<close>.
\<close>

datatype jsnum = Num rat | NegZero | PosInf | NegInf | NaN

text \<open>
  Rounding to the nearest double, ties to the even significand. \<open>ilog2 a\<close> is
  the exponent of the binary point of \<open>a > 0\<close> (\<open>2 ^ e \<le> a < 2 ^ (e + 1)\<close>); a
  double has 53 significant bits, so its last place is worth \<open>2 ^ (e - 52)\<close>, and
  no less than \<open>2 ^ -1074\<close> (the subnormal range). A result of \<open>2 ^ 1024\<close> or more
  overflows to an infinity, one that rounds to nothing keeps its sign as a
  zero. \<open>neg_zero\<close> is the sign of the result when the exact value is zero.
\<close>

function bit_length :: "int \<Rightarrow> int" where
  "bit_length n = (if n \<le> 0 then 0 else 1 + bit_length (n div 2))"
  by pat_completeness auto
termination
  by (relation "measure nat") auto

definition pow2 :: "int \<Rightarrow> rat" where
  "pow2 e = (if 0 \<le> e then 2 ^ nat e else 1 / 2 ^ nat (- e))"

definition ilog2 :: "rat \<Rightarrow> int" where
  "ilog2 a = (if 1 \<le> a then bit_length \<lfloor>a\<rfloor> - 1 else - bit_length (- \<lfloor>- (1 / a)\<rfloor> - 1))"

definition round_half_even :: "rat \<Rightarrow> int" where
  "round_half_even y =
     (let f = \<lfloor>y\<rfloor>;
          d = y - of_int f
      in if d < 1 / 2 then f else if 1 / 2 < d then f + 1 else if even f then f else f + 1)"

definition signed_zero :: "bool \<Rightarrow> jsnum" where
  "signed_zero neg = (if neg then NegZero else Num 0)"

definition signed_inf :: "bool \<Rightarrow> jsnum" where
  "signed_inf neg = (if neg then NegInf else PosInf)"

definition round_double :: "bool \<Rightarrow> rat \<Rightarrow> jsnum" where
  "round_double neg_zero x =
     (if x = 0 then signed_zero neg_zero
      else
        (let a = \<bar>x\<bar>;
             e = max (ilog2 a) (- 1022);
             ulp = pow2 (e - 52);
             r = of_int (round_half_even (a / ulp)) * ulp
         in if pow2 1024 \<le> r then signed_inf (x < 0)
            else if r = 0 then signed_zero (x < 0)
            else Num (if x < 0 then - r else r)))"

text \<open>
  The operations the handler applies: \<open>/\<close>, \<open>*\<close>, \<open>-\<close> (as the sum with the
  negated operand) and \<open>Math.floor\<close>. Each is the exact result, rounded; the
  cases with a zero, an infinity or \<open>NaN\<close> are those of IEEE 754.
\<close>

fun is_inf :: "jsnum \<Rightarrow> bool" where
  "is_inf PosInf = True"
| "is_inf NegInf = True"
| "is_inf a = False"

fun is_zero :: "jsnum \<Rightarrow> bool" where
  "is_zero (Num x) = (x = 0)"
| "is_zero NegZero = True"
| "is_zero a = False"

fun js_negative :: "jsnum \<Rightarrow> bool" where
  "js_negative (Num x) = (x < 0)"
| "js_negative NegZero = True"
| "js_negative NegInf = True"
| "js_negative a = False"

fun js_val :: "jsnum \<Rightarrow> rat" where
  "js_val (Num x) = x"
| "js_val a = 0"

definition js_div :: "jsnum \<Rightarrow> jsnum \<Rightarrow> jsnum" where
  "js_div a b =
     (let neg = (js_negative a \<noteq> js_negative b)
      in if a = NaN \<or> b = NaN then NaN
         else if is_inf a then (if is_inf b then NaN else signed_inf neg)
         else if is_inf b then signed_zero neg
         else if is_zero b then (if is_zero a then NaN else signed_inf neg)
         else round_double neg (js_val a / js_val b))"

definition js_mul :: "jsnum \<Rightarrow> jsnum \<Rightarrow> jsnum" where
  "js_mul a b =
     (let neg = (js_negative a \<noteq> js_negative b)
      in if a = NaN \<or> b = NaN then NaN
         else if is_inf a \<or> is_inf b
           then (if is_zero a \<or> is_zero b then NaN else signed_inf neg)
         else round_double neg (js_val a * js_val b))"

fun js_neg :: "jsnum \<Rightarrow> jsnum" where
  "js_neg (Num x) = (if x = 0 then NegZero else Num (- x))"
| "js_neg NegZero = Num 0"
| "js_neg PosInf = NegInf"
| "js_neg NegInf = PosInf"
| "js_neg NaN = NaN"

definition js_add :: "jsnum \<Rightarrow> jsnum \<Rightarrow> jsnum" where
  "js_add a b =
     (if a = NaN \<or> b = NaN then NaN
      else if is_inf a then (if is_inf b \<and> a \<noteq> b then NaN else a)
      else if is_inf b then b
      else round_double (a = NegZero \<and> b = NegZero) (js_val a + js_val b))"

definition js_sub :: "jsnum \<Rightarrow> jsnum \<Rightarrow> jsnum" where
  "js_sub a b = js_add a (js_neg b)"

fun js_floor :: "jsnum \<Rightarrow> jsnum" where
  "js_floor (Num x) = Num (of_int \<lfloor>x\<rfloor>)"
| "js_floor a = a"

section \<open>Decimal strings\<close>

text \<open>
  Strings are lists of 8-bit characters. \<open>digits\<close> is JavaScript's rendering of a
  non-negative integer (\<open>'' + n\<close>), and \<open>zeroFill\<close> is moment's helper of the same
  name (with \<open>forceSign\<close> absent): a minus sign for a negative number, then the
  absolute value padded with zeros to the target length.
\<close>

definition digit_char :: "nat \<Rightarrow> char" where
  "digit_char k = ''0123456789'' ! k"

fun digits :: "nat \<Rightarrow> string" where
  "digits n = (if n < 10 then [digit_char n] else digits (n div 10) @ [digit_char (n mod 10)])"

definition zeroFill :: "int \<Rightarrow> nat \<Rightarrow> string" where
  "zeroFill number targetLength =
     (let absNumber = digits (nat \<bar>number\<bar>);
          zerosToFill = targetLength - length absNumber
      in (if 0 \<le> number then [] else ''-'') @ replicate zerosToFill (CHR ''0'') @ absNumber)"

definition is_digit :: "char \<Rightarrow> bool" where
  "is_digit c = (c \<in> set ''0123456789'')"

definition digit_val :: "char \<Rightarrow> nat" where
  "digit_val c = of_char c - 48"

text \<open>The value of a string of decimal digits, most significant digit first.\<close>

definition undigits :: "string \<Rightarrow> nat" where
  "undigits s = foldl (\<lambda>a c. 10 * a + digit_val c) 0 s"

text \<open>Reading back what \<open>zeroFill\<close> wrote (used to show that \<open>zeroFill\<close> is injective).\<close>

definition unfill :: "string \<Rightarrow> int" where
  "unfill s =
     (if s \<noteq> [] \<and> hd s = CHR ''-'' then - int (undigits (tl s)) else int (undigits s))"

section \<open>Reading numbers from strings\<close>

text \<open>
  Strings are lists of 8-bit characters (code units 0 to 255), so the white
  space \<open>parseFloat\<close> and \<open>Number\<close> skip is the tab, the line feed, the vertical
  tab, the form feed, the carriage return, the space and the no-break space.

  \<open>scan_decimal\<close> reads the longest prefix that is a decimal literal: an
  optional sign, then \<open>Infinity\<close> or digits with an optional fraction and an
  optional exponent. It returns the double nearest to the literal and the
  text it did not read, or \<open>None\<close> when no prefix is a literal.
\<close>

definition is_space :: "char \<Rightarrow> bool" where
  "is_space c =
     (c \<in> set [CHR 0x09, CHR 0x0A, CHR 0x0B, CHR 0x0C, CHR 0x0D, CHR 0x20, CHR 0xA0])"

definition read_sign :: "string \<Rightarrow> bool \<times> string" where
  "read_sign s =
     (case s of
        [] \<Rightarrow> (False, s)
      | c # r \<Rightarrow> if c = CHR ''-'' then (True, r) else if c = CHR ''+'' then (False, r)
                 else (False, s))"

definition read_exponent :: "string \<Rightarrow> int \<times> string" where
  "read_exponent s =
     (case s of
        [] \<Rightarrow> (0, s)
      | c # r \<Rightarrow>
          if c = CHR ''e'' \<or> c = CHR ''E''
          then (let ds = takeWhile is_digit (snd (read_sign r))
                in if ds = [] then (0, s)
                   else (if fst (read_sign r) then - int (undigits ds) else int (undigits ds),
                         dropWhile is_digit (snd (read_sign r))))
          else (0, s))"

definition scale10 :: "rat \<Rightarrow> int \<Rightarrow> rat" where
  "scale10 x e = (if 0 \<le> e then x * 10 ^ nat e else x / 10 ^ nat (- e))"

definition scan_decimal :: "string \<Rightarrow> (jsnum \<times> string) option" where
  "scan_decimal t =
     (let neg = fst (read_sign t);
          u = snd (read_sign t)
      in if take 8 u = ''Infinity'' then Some (signed_inf neg, drop 8 u)
         else
           (let ip = takeWhile is_digit u;
                r1 = dropWhile is_digit u;
                has_dot = (r1 \<noteq> [] \<and> hd r1 = CHR ''.'');
                fp = (if has_dot then takeWhile is_digit (tl r1) else []);
                r2 = (if has_dot then dropWhile is_digit (tl r1) else r1)
            in if ip = [] \<and> fp = [] then None
               else
                 (let mant = scale10 (of_int (int (undigits (ip @ fp)))) (- int (length fp));
                      v = scale10 mant (fst (read_exponent r2))
                  in Some (round_double neg (if neg then - v else v), snd (read_exponent r2)))))"

text \<open>
  \<open>parseFloat\<close> skips leading white space and reads a decimal literal,
  whatever follows it; with none the result is \<open>NaN\<close>. \<open>parseFloat_value\<close> is
  \<open>parseFloat\<close> on a value that may be \<open>undefined\<close> (\<open>None\<close>), which converts
  to the string \<open>undefined\<close> and so to \<open>NaN\<close>.
\<close>

definition parseFloat :: "string \<Rightarrow> jsnum" where
  "parseFloat s =
     (case scan_decimal (dropWhile is_space s) of
        None \<Rightarrow> NaN
      | Some (v, rest) \<Rightarrow> v)"

definition parseFloat_value :: "string option \<Rightarrow> jsnum" where
  "parseFloat_value v = (case v of None \<Rightarrow> NaN | Some s \<Rightarrow> parseFloat s)"

text \<open>
  \<open>toNumber\<close> is the conversion \<open>*\<close> applies to a string operand (ToNumber):
  white space is trimmed at both ends, the empty string is 0, and the whole
  rest must be a decimal literal or a literal in base 16, 8 or 2 with its
  prefix; anything else is \<open>NaN\<close>. \<open>undefined\<close> converts to \<open>NaN\<close>.
\<close>

definition radix_digit :: "char \<Rightarrow> nat option" where
  "radix_digit c =
     map_of (zip ''0123456789abcdefABCDEF''
       [0, 1, 2, 3, 4, 5, 6, 7, 8, 9, 10, 11, 12, 13, 14, 15, 10, 11, 12, 13, 14, 15]) c"

definition radix_value :: "nat \<Rightarrow> string \<Rightarrow> nat option" where
  "radix_value base s =
     (if s \<noteq> [] \<and> list_all (\<lambda>c. case radix_digit c of None \<Rightarrow> False | Some d \<Rightarrow> d < base) s
      then Some (foldl (\<lambda>a c. base * a + (case radix_digit c of None \<Rightarrow> 0 | Some d \<Rightarrow> d)) 0 s)
      else None)"

definition non_decimal :: "string \<Rightarrow> jsnum" where
  "non_decimal t =
     (case t of
        z # x # ds \<Rightarrow>
          if z = CHR ''0'' then
            (case radix_value
                    (if x = CHR ''x'' \<or> x = CHR ''X'' then 16
                     else if x = CHR ''o'' \<or> x = CHR ''O'' then 8
                     else if x = CHR ''b'' \<or> x = CHR ''B'' then 2
                     else 0) ds of
               None \<Rightarrow> NaN
             | Some n \<Rightarrow> round_double False (of_int (int n)))
          else NaN
      | _ \<Rightarrow> NaN)"

definition toNumber :: "string \<Rightarrow> jsnum" where
  "toNumber s =
     (let t = rev (dropWhile is_space (rev (dropWhile is_space s)))
      in if t = [] then Num 0
         else
           (case scan_decimal t of
              None \<Rightarrow> non_decimal t
            | Some (v, rest) \<Rightarrow> if rest = [] then v else non_decimal t))"

definition toNumber_value :: "string option \<Rightarrow> jsnum" where
  "toNumber_value v = (case v of None \<Rightarrow> NaN | Some s \<Rightarrow> toNumber s)"

text \<open>\<open>parseInt\<close> on a string of decimal digits (the groups of the date pattern).\<close>

definition parseInt :: "string \<Rightarrow> int" where
  "parseInt s = int (undigits s)"

section \<open>The balance record and the report\<close>

text \<open>
  The object \<open>getK6Balance\<close> returns. \<open>balanceCurrencyUnit\<close> is an element of
  the match array read by index: \<open>None\<close> is JavaScript's \<open>undefined\<close>, what an
  index outside the array yields. \<open>lastToppedUpUTC\<close> is the parsed instant, in
  milliseconds of local civil time (the source renders it in UTC with
  \<open>toISOString\<close>; the rendering is not modelled).
\<close>

record balance =
  currentBalance :: jsnum
  balanceCurrencyUnit :: "string option"
  lastToppedUpUTC :: int

text \<open>The object sent as the JSON body of a successful response.\<close>

record report =
  r_currentBalance :: jsnum
  r_currentBalanceInNumberOfMeals :: jsnum
  r_balanceCurrencyUnit :: "string option"
  r_weekdaysUntilNextPayment :: int
  r_pricePerMeal :: jsnum
  r_mealsNeeded :: jsnum
  r_topupNeeded :: jsnum
  r_lastToppedUpUTC :: int

text \<open>
  \<open>computeReport\<close> is the arithmetic of \<open>generateBalanceData\<close>
  (src/unnamed/part_000, lines 44-57): the three derived numbers and the object
  built from them. Nothing is checked before the division. The count of
  weekdays is a small whole number, which a double holds exactly.
\<close>

definition computeReport :: "jsnum \<Rightarrow> balance \<Rightarrow> int \<Rightarrow> report" where
  "computeReport pricePerMeal bal weekdaysUntilNextPayment =
     (let balanceInNumberOfMeals = js_floor (js_div (currentBalance bal) pricePerMeal);
          numberOfMealsNeeded =
            js_sub (Num (of_int weekdaysUntilNextPayment)) balanceInNumberOfMeals;
          topupNeeded = js_mul numberOfMealsNeeded pricePerMeal
      in \<lparr> r_currentBalance = currentBalance bal,
           r_currentBalanceInNumberOfMeals = balanceInNumberOfMeals,
           r_balanceCurrencyUnit = balanceCurrencyUnit bal,
           r_weekdaysUntilNextPayment = weekdaysUntilNextPayment,
           r_pricePerMeal = pricePerMeal,
           r_mealsNeeded = numberOfMealsNeeded,
           r_topupNeeded = topupNeeded,
           r_lastToppedUpUTC = lastToppedUpUTC bal \<rparr>)"

text \<open>
  The same lines of the handler in src/index.js (lines 23-36). There the last
  product multiplies by \<open>process.env.PRICE_PER_MEAL\<close> itself: \<open>priceEnv\<close> is that
  value of the environment, a string or \<open>undefined\<close>, and \<open>*\<close> converts it with
  ToNumber.
\<close>

definition computeReport_index :: "jsnum \<Rightarrow> string option \<Rightarrow> balance \<Rightarrow> int \<Rightarrow> report" where
  "computeReport_index pricePerMeal priceEnv bal weekdaysUntilNextPayment =
     (let balanceInNumberOfMeals = js_floor (js_div (currentBalance bal) pricePerMeal);
          numberOfMealsNeeded =
            js_sub (Num (of_int weekdaysUntilNextPayment)) balanceInNumberOfMeals;
          topupNeeded = js_mul numberOfMealsNeeded (toNumber_value priceEnv)
      in \<lparr> r_currentBalance = currentBalance bal,
           r_currentBalanceInNumberOfMeals = balanceInNumberOfMeals,
           r_balanceCurrencyUnit = balanceCurrencyUnit bal,
           r_weekdaysUntilNextPayment = weekdaysUntilNextPayment,
           r_pricePerMeal = pricePerMeal,
           r_mealsNeeded = numberOfMealsNeeded,
           r_topupNeeded = topupNeeded,
           r_lastToppedUpUTC = lastToppedUpUTC bal \<rparr>)"

section \<open>Calendar dates\<close>

text \<open>
  Days are counted from 1970-01-01 (day 0), as the time value of a JavaScript
  \<open>Date\<close> counts them. \<open>days_from_civil\<close> gives the day number of a date of the
  proleptic Gregorian calendar (month 1 to 12) and \<open>civil_from_days\<close> gives the
  date of a day number. Both work on years that start on 1 March, in eras of
  400 years (146097 days), centuries of 36524 days and groups of four years
  (1461 days).
\<close>

definition days_from_civil :: "int \<Rightarrow> int \<Rightarrow> int \<Rightarrow> int" where
  "days_from_civil y m d =
     (let y' = (if m \<le> 2 then y - 1 else y);
          era = y' div 400;
          yoe = y' mod 400;
          mp = (m + 9) mod 12;
          doy = (153 * mp + 2) div 5 + d - 1;
          doe = yoe * 365 + yoe div 4 - yoe div 100 + doy
      in era * 146097 + doe - 719468)"

definition civil_from_days :: "int \<Rightarrow> int \<times> int \<times> int" where
  "civil_from_days z =
     (let z' = z + 719468;
          era = z' div 146097;
          doe = z' mod 146097;
          c = min (doe div 36524) 3;
          doc = doe - 36524 * c;
          q = doc div 1461;
          doq = doc mod 1461;
          yq = min (doq div 365) 3;
          doy = doq - 365 * yq;
          mp = (5 * doy + 2) div 153;
          d = doy - (153 * mp + 2) div 5 + 1;
          m = (if mp < 10 then mp + 3 else mp - 9);
          y = 400 * era + 100 * c + 4 * q + yq
      in (if m \<le> 2 then y + 1 else y, m, d))"

definition isLeapYear :: "int \<Rightarrow> bool" where
  "isLeapYear year = ((year mod 4 = 0 \<and> year mod 100 \<noteq> 0) \<or> year mod 400 = 0)"

text \<open>moment's \<open>daysInMonth (year, month)\<close>; the month counts from 0 and may overflow.\<close>

definition daysInMonth :: "int \<Rightarrow> int \<Rightarrow> int" where
  "daysInMonth year month =
     (let modMonth = month mod 12;
          year' = year + (month - modMonth) div 12
      in if modMonth = 1 then (if isLeapYear year' then 29 else 28)
         else 31 - ((modMonth mod 7) mod 2))"

text \<open>
  ECMAScript's \<open>MakeDay (year, month, date)\<close>: the month counts from 0 and
  overflows into the following years, the date overflows into the following
  days.
\<close>

definition MakeDay :: "int \<Rightarrow> int \<Rightarrow> int \<Rightarrow> int" where
  "MakeDay year month dt = days_from_civil (year + month div 12) (month mod 12 + 1) 1 + dt - 1"

section \<open>Moments\<close>

text \<open>
  A moment is a point of local civil time, in milliseconds since
  1970-01-01 00:00:00.000 local time. The host's zone is taken to have a fixed
  offset (no daylight-saving jumps), and the range limit of a \<open>Date\<close>
  (100 million days around 1970) is not modelled. The functions below are the
  methods of moment the program calls.
\<close>

type_synonym moment = int

definition msPerDay :: int where
  "msPerDay = 86400000"

definition moment_year :: "moment \<Rightarrow> int" where
  "moment_year t = fst (civil_from_days (t div msPerDay))"

text \<open>\<open>month ()\<close> counts from 0.\<close>

definition moment_month :: "moment \<Rightarrow> int" where
  "moment_month t = fst (snd (civil_from_days (t div msPerDay))) - 1"

definition moment_date :: "moment \<Rightarrow> int" where
  "moment_date t = snd (snd (civil_from_days (t div msPerDay)))"

text \<open>\<open>day ()\<close>: the day of the week, 0 for Sunday to 6 for Saturday. Day 0 was a Thursday.\<close>

definition moment_day :: "moment \<Rightarrow> int" where
  "moment_day t = (t div msPerDay + 4) mod 7"

text \<open>\<open>set ('date', n)\<close> is \<open>Date.setDate\<close>: the date may overflow the month.\<close>

definition moment_set_date :: "moment \<Rightarrow> int \<Rightarrow> moment" where
  "moment_set_date t n = MakeDay (moment_year t) (moment_month t) n * msPerDay + t mod msPerDay"

definition moment_set_hour :: "moment \<Rightarrow> int \<Rightarrow> moment" where
  "moment_set_hour t hr = t - ((t div 3600000) mod 24) * 3600000 + hr * 3600000"

definition moment_set_minute :: "moment \<Rightarrow> int \<Rightarrow> moment" where
  "moment_set_minute t mi = t - ((t div 60000) mod 60) * 60000 + mi * 60000"

definition moment_set_second :: "moment \<Rightarrow> int \<Rightarrow> moment" where
  "moment_set_second t sec = t - ((t div 1000) mod 60) * 1000 + sec * 1000"

text \<open>\<open>isBefore ()\<close> with no argument compares with the current time.\<close>

definition moment_isBefore :: "moment \<Rightarrow> moment \<Rightarrow> bool" where
  "moment_isBefore t now = (t < now)"

text \<open>
  \<open>add (1, 'months')\<close>: moment moves to the next month and clamps the date to
  that month's length (31 January becomes 28 or 29 February).
\<close>

definition moment_add_month :: "moment \<Rightarrow> moment" where
  "moment_add_month t =
     (let value = moment_month t + 1;
          dayOfMonth = min (moment_date t) (daysInMonth (moment_year t) value)
      in MakeDay (moment_year t) value dayOfMonth * msPerDay + t mod msPerDay)"

definition moment_subtract_day :: "moment \<Rightarrow> moment" where
  "moment_subtract_day t = t - msPerDay"

text \<open>
  \<open>a.diff (b, 'days')\<close>: the difference in milliseconds divided by the length
  of a day and truncated toward zero (moment's \<open>absFloor\<close>).
\<close>

definition absFloor_div :: "int \<Rightarrow> int \<Rightarrow> int" where
  "absFloor_div a b = (if a < 0 then - ((- a) div b) else a div b)"

definition moment_diff_days :: "moment \<Rightarrow> moment \<Rightarrow> int" where
  "moment_diff_days a b = absFloor_div (a - b) msPerDay"

text \<open>\<open>format ('YYYY-MM-DD')\<close>.\<close>

definition moment_format_date :: "moment \<Rightarrow> string" where
  "moment_format_date t =
     zeroFill (moment_year t) 4 @ ''-'' @ zeroFill (moment_month t + 1) 2 @ ''-''
       @ zeroFill (moment_date t) 2"

section \<open>The next pay date\<close>

text \<open>
  \<open>getNextPayDate\<close> is the same function in both files. It reads the current
  time, the configured day of the month and the holiday package, which are
  arguments here: \<open>now\<close> is the value of \<open>moment ()\<close> (the three readings of the
  clock within one call are taken as one instant), \<open>paymentDayInMonth\<close> is the
  number the environment string stands for, and \<open>holidays\<close> maps a year to the
  dates (as \<open>YYYY-MM-DD\<close> strings) the package \<open>holidays-norway\<close> lists for it.

  The loop steps back one day at a time with no bound, so it is a partial
  function: \<open>None\<close> stands for a loop that never ends.
\<close>

definition excluded :: "string list \<Rightarrow> moment \<Rightarrow> bool" where
  "excluded holidayArray nextPayDate =
     (moment_format_date nextPayDate \<in> set holidayArray
      \<or> moment_day nextPayDate \<in> set [0, 6])"

partial_function (option) payday_walk :: "string list \<Rightarrow> moment \<Rightarrow> moment option" where
  "payday_walk holidayArray nextPayDate =
     (if excluded holidayArray nextPayDate
      then payday_walk holidayArray (moment_subtract_day nextPayDate)
      else Some nextPayDate)"

definition getNextPayDate :: "(int \<Rightarrow> string list) \<Rightarrow> int \<Rightarrow> moment \<Rightarrow> moment option" where
  "getNextPayDate holidays paymentDayInMonth now =
     (let nextPayDate =
            moment_set_second (moment_set_minute (moment_set_hour
              (moment_set_date now paymentDayInMonth) 0) 0) 0;
          nextPayDate =
            (if moment_isBefore nextPayDate now then moment_add_month nextPayDate
             else nextPayDate);
          holidayArray = holidays (moment_year now)
      in payday_walk holidayArray nextPayDate)"

section \<open>Counting weekdays\<close>

text \<open>
  Moments are mutable objects, so the two arguments of
  \<open>calculateWeekdaysBetweenDates\<close> are references into a store of moments, and
  the function returns the count together with the store it leaves behind.
\<close>

type_synonym ref = nat

type_synonym heap = "ref \<Rightarrow> moment"

text \<open>
  The loop of src/unnamed/part_000 (lines 71-77): it tests the day of the week
  of \<open>to\<close> and moves that same object back by one day, in place.
\<close>

function weekdays_loop :: "ref \<Rightarrow> int \<Rightarrow> nat \<Rightarrow> heap \<Rightarrow> nat \<times> heap" where
  "weekdays_loop to_ref daysUntilPayment dayCount h =
     (if 0 \<le> daysUntilPayment
      then weekdays_loop to_ref (daysUntilPayment - 1)
             (if moment_day (h to_ref) \<in> set [0, 6] then dayCount else dayCount + 1)
             (h(to_ref := moment_subtract_day (h to_ref)))
      else (dayCount, h))"
  by pat_completeness auto
termination
  by (relation "measure (\<lambda>(to_ref, daysUntilPayment, dayCount, h). nat (daysUntilPayment + 1))")
    auto

definition calculateWeekdaysBetweenDates :: "ref \<Rightarrow> ref \<Rightarrow> heap \<Rightarrow> nat \<times> heap" where
  "calculateWeekdaysBetweenDates from_ref to_ref h =
     weekdays_loop to_ref (moment_diff_days (h to_ref) (h from_ref)) 0 h"

text \<open>
  The loop of src/index.js (lines 55-61): it tests and moves a pay date of its
  own, which \<open>getNextPayDate ()\<close> made afresh; \<open>from\<close> and \<open>to\<close> only give the
  number of iterations.
\<close>

function weekdays_loop_index :: "moment \<Rightarrow> int \<Rightarrow> nat \<Rightarrow> nat" where
  "weekdays_loop_index nextPayDate daysUntilPayment dayCount =
     (if 0 \<le> daysUntilPayment
      then weekdays_loop_index (moment_subtract_day nextPayDate) (daysUntilPayment - 1)
             (if moment_day nextPayDate \<in> set [0, 6] then dayCount else dayCount + 1)
      else dayCount)"
  by pat_completeness auto
termination
  by (relation "measure (\<lambda>(nextPayDate, daysUntilPayment, dayCount). nat (daysUntilPayment + 1))")
    auto

definition calculateWeekdaysBetweenDates_index ::
  "(int \<Rightarrow> string list) \<Rightarrow> int \<Rightarrow> moment \<Rightarrow> ref \<Rightarrow> ref \<Rightarrow> heap \<Rightarrow> (nat \<times> heap) option" where
  "calculateWeekdaysBetweenDates_index holidays paymentDayInMonth now from_ref to_ref h =
     (case getNextPayDate holidays paymentDayInMonth now of
        None \<Rightarrow> None
      | Some nextPayDate \<Rightarrow>
          Some (weekdays_loop_index nextPayDate (moment_diff_days (h to_ref) (h from_ref)) 0, h))"

section \<open>Reading the balance from the page\<close>

text \<open>
  The two regular expressions, as matchers that return the match array (the
  whole match, then the groups) or \<open>None\<close> for \<open>null\<close>. Both patterns are
  anchored at both ends, and in both the text splits into groups in one way
  only, so the matchers split it directly.

  \<open>balanceMatcher\<close> is \<open>^Saldo: ([0-9].+) ([A-Z]{1,5})$\<close> with flag \<open>i\<close>: the
  currency group holds no space, so it starts after the last space of the
  text; the first group is a digit followed by at least one character that is
  not a line terminator; letters match in either case.
\<close>

definition ascii_upper :: "char \<Rightarrow> char" where
  "ascii_upper c =
     (case map_of (zip ''abcdefghijklmnopqrstuvwxyz'' ''ABCDEFGHIJKLMNOPQRSTUVWXYZ'') c of
        None \<Rightarrow> c
      | Some u \<Rightarrow> u)"

definition is_letter :: "char \<Rightarrow> bool" where
  "is_letter c = (ascii_upper c \<in> set ''ABCDEFGHIJKLMNOPQRSTUVWXYZ'')"

definition is_line_terminator :: "char \<Rightarrow> bool" where
  "is_line_terminator c = (c \<in> set [CHR 0x0A, CHR 0x0D])"

definition balanceMatcher_match :: "string \<Rightarrow> string list option" where
  "balanceMatcher_match s =
     (if map ascii_upper (take 7 s) = ''SALDO: ''
      then
        (let rest = drop 7 s;
             g2 = rev (takeWhile (\<lambda>c. c \<noteq> CHR '' '') (rev rest));
             g1 = take (length rest - length g2 - 1) rest
         in if length g2 < length rest
               \<and> 2 \<le> length g1 \<and> is_digit (hd g1)
               \<and> list_all (\<lambda>c. \<not> is_line_terminator c) (tl g1)
               \<and> 1 \<le> length g2 \<and> length g2 \<le> 5 \<and> list_all is_letter g2
            then Some [s, g1, g2]
            else None)
      else None)"

text \<open>
  \<open>dateMatcher\<close> is
  \<open>^([0-9]{1,2})\.([0-9]{1,2})\.([0-9]{4}) ([0-9]{1,2}):([0-9]{1,2})$\<close>.
  \<open>digits_then lo hi sep s\<close> reads a run of \<open>lo\<close> to \<open>hi\<close> digits followed by the
  separator and returns the run and the text after the separator.
\<close>

definition digits_then :: "nat \<Rightarrow> nat \<Rightarrow> char \<Rightarrow> string \<Rightarrow> (string \<times> string) option" where
  "digits_then lo hi sep s =
     (let g = takeWhile is_digit s;
          r = dropWhile is_digit s
      in if lo \<le> length g \<and> length g \<le> hi \<and> r \<noteq> [] \<and> hd r = sep
         then Some (g, tl r)
         else None)"

definition dateMatcher_match :: "string \<Rightarrow> string list option" where
  "dateMatcher_match s =
     (case digits_then 1 2 (CHR ''.'') s of
        None \<Rightarrow> None
      | Some (g1, r1) \<Rightarrow>
     (case digits_then 1 2 (CHR ''.'') r1 of
        None \<Rightarrow> None
      | Some (g2, r2) \<Rightarrow>
     (case digits_then 4 4 (CHR '' '') r2 of
        None \<Rightarrow> None
      | Some (g3, r3) \<Rightarrow>
     (case digits_then 1 2 (CHR '':'') r3 of
        None \<Rightarrow> None
      | Some (g4, g5) \<Rightarrow>
          if 1 \<le> length g5 \<and> length g5 \<le> 2 \<and> list_all is_digit g5
          then Some [s, g1, g2, g3, g4, g5]
          else None))))"

text \<open>Reading an array by index: an index outside the array gives \<open>undefined\<close>.\<close>

definition js_at :: "'a list \<Rightarrow> nat \<Rightarrow> 'a option" where
  "js_at xs i = (if i < length xs then Some (xs ! i) else None)"

text \<open>
  \<open>new Date (year, month, date, hours, minutes)\<close> in local time; a year from 0
  to 99 stands for 1900 to 1999.
\<close>

definition new_Date :: "int \<Rightarrow> int \<Rightarrow> int \<Rightarrow> int \<Rightarrow> int \<Rightarrow> moment" where
  "new_Date year month dt hours minutes =
     MakeDay (if 0 \<le> year \<and> year \<le> 99 then 1900 + year else year) month dt * msPerDay
       + hours * 3600000 + minutes * 60000"

text \<open>
  \<open>getK6Balance\<close> drives a browser to the account page and reads two texts from
  it; the texts are the arguments here. This is src/unnamed/part_000
  (lines 136-158): \<open>None\<close> is the \<open>false\<close> it returns when a pattern does not
  match, and the currency unit is read at index 80 of the match array.
\<close>

definition getK6Balance :: "string \<Rightarrow> string \<Rightarrow> balance option" where
  "getK6Balance balanceString dateString =
     (case balanceMatcher_match balanceString of
        None \<Rightarrow> None
      | Some balanceMatches \<Rightarrow>
          (let formattedBalance = parseFloat_value (js_at balanceMatches 1);
               currencyUnit = js_at balanceMatches 80
           in case dateMatcher_match dateString of
                None \<Rightarrow> None
              | Some dateMatches \<Rightarrow>
                  Some \<lparr> currentBalance = formattedBalance,
                         balanceCurrencyUnit = currencyUnit,
                         lastToppedUpUTC =
                           new_Date (parseInt (dateMatches ! 3)) (parseInt (dateMatches ! 2) - 1)
                             (parseInt (dateMatches ! 1)) (parseInt (dateMatches ! 4))
                             (parseInt (dateMatches ! 5)) \<rparr>))"

text \<open>
  src/index.js (lines 122-136) does not test the patterns: reading an element
  of a \<open>null\<close> match throws a \<open>TypeError\<close>. The currency unit is read at
  index 2.
\<close>

datatype js_error = TypeError

definition getK6Balance_index :: "string \<Rightarrow> string \<Rightarrow> js_error + balance" where
  "getK6Balance_index balanceString dateString =
     (case balanceMatcher_match balanceString of
        None \<Rightarrow> Inl TypeError
      | Some balanceMatches \<Rightarrow>
          (let formattedBalance = parseFloat_value (js_at balanceMatches 1);
               currencyUnit = js_at balanceMatches 2
           in case dateMatcher_match dateString of
                None \<Rightarrow> Inl TypeError
              | Some dateMatches \<Rightarrow>
                  Inr \<lparr> currentBalance = formattedBalance,
                        balanceCurrencyUnit = currencyUnit,
                        lastToppedUpUTC =
                          new_Date (parseInt (dateMatches ! 3)) (parseInt (dateMatches ! 2) - 1)
                            (parseInt (dateMatches ! 1)) (parseInt (dateMatches ! 4))
                            (parseInt (dateMatches ! 5)) \<rparr>))"

section \<open>The request handler\<close>

text \<open>
  What a request ends in: a JSON report, the JSON body \<open>{ error: ... }\<close>, or an
  exception that leaves the handler before it writes any body.
\<close>

datatype response = Json_report report | Json_error string | Unhandled js_error

text \<open>
  src/unnamed/part_000: \<open>generateBalanceData\<close> (lines 34-58) and the handler
  (lines 14-23). The outer \<open>option\<close> is \<open>None\<close> only if the pay-date loop never
  ends; the inner one is \<open>None\<close> for the value \<open>false\<close>. The two moments handed to
  \<open>calculateWeekdaysBetweenDates\<close> are fresh objects, at references 0 and 1.
\<close>

definition generateBalanceData ::
  "(int \<Rightarrow> string list) \<Rightarrow> int \<Rightarrow> jsnum \<Rightarrow> moment \<Rightarrow> string \<Rightarrow> string \<Rightarrow> report option option" where
  "generateBalanceData holidays paymentDayInMonth pricePerMeal now balanceString dateString =
     (case getK6Balance balanceString dateString of
        None \<Rightarrow> Some None
      | Some bal \<Rightarrow>
          (case getNextPayDate holidays paymentDayInMonth now of
             None \<Rightarrow> None
           | Some nextPayDate \<Rightarrow>
               (let weekdaysUntilNextPayment =
                      fst (calculateWeekdaysBetweenDates 0 1 ((\<lambda>r. 0)(0 := now, 1 := nextPayDate)))
                in Some (Some (computeReport pricePerMeal bal (int weekdaysUntilNextPayment))))))"

definition app_get ::
  "(int \<Rightarrow> string list) \<Rightarrow> int \<Rightarrow> jsnum \<Rightarrow> moment \<Rightarrow> string \<Rightarrow> string \<Rightarrow> response option" where
  "app_get holidays paymentDayInMonth pricePerMeal now balanceString dateString =
     (case generateBalanceData holidays paymentDayInMonth pricePerMeal now balanceString dateString of
        None \<Rightarrow> None
      | Some None \<Rightarrow> Some (Json_error ''Could not obtain account balance'')
      | Some (Some result) \<Rightarrow> Some (Json_report result))"

text \<open>
  src/index.js (lines 14-37): the pay date and the weekdays are computed first,
  then the balance is read; an exception from \<open>getK6Balance\<close> is not caught.
\<close>

definition app_get_index ::
  "(int \<Rightarrow> string list) \<Rightarrow> int \<Rightarrow> jsnum \<Rightarrow> string option \<Rightarrow> moment \<Rightarrow> string \<Rightarrow> string
     \<Rightarrow> response option" where
  "app_get_index holidays paymentDayInMonth pricePerMeal priceEnv now balanceString dateString =
     (case getNextPayDate holidays paymentDayInMonth now of
        None \<Rightarrow> None
      | Some nextPayDate \<Rightarrow>
          (case calculateWeekdaysBetweenDates_index holidays paymentDayInMonth now 0 1
                  ((\<lambda>r. 0)(0 := now, 1 := nextPayDate)) of
             None \<Rightarrow> None
           | Some (weekdaysUntilNextPayment, h) \<Rightarrow>
               (case getK6Balance_index balanceString dateString of
                  Inl e \<Rightarrow> Some (Unhandled e)
                | Inr bal \<Rightarrow>
                    Some (Json_report
                      (computeReport_index pricePerMeal priceEnv bal (int weekdaysUntilNextPayment))))))"

section \<open>Start of the process\<close>

text \<open>
  The top level of both files (lines 7-12 and the call of \<open>app.listen\<close>): the
  environment is read, the price is parsed, and \<open>app.listen (port, ...)\<close> is
  called. \<open>env\<close> is \<open>process.env\<close>. Whether the server comes to listen is decided
  outside the program, by Node's network layer and the host (the form of the
  port, whether it is free): \<open>listen\<close> is that decision, the error it ends in or
  \<open>None\<close> when the server listens. No statement of the top level tests the
  price or the payment day.
\<close>

record config =
  cfg_paymentDayInMonth :: "string option"
  cfg_pricePerMeal :: jsnum
  cfg_port :: "string option"

datatype startup_result = Listen_failed string | Listening config

definition startup :: "(string option \<Rightarrow> string option) \<Rightarrow> (string \<Rightarrow> string option) \<Rightarrow> startup_result" where
  "startup listen env =
     (let paymentDayInMonth = env ''PAYMENT_DAY_IN_MONTH'';
          pricePerMeal = parseFloat_value (env ''PRICE_PER_MEAL'');
          port = env ''WEBSERVER_PORT''
      in case listen port of
           Some err \<Rightarrow> Listen_failed err
         | None \<Rightarrow>
             Listening \<lparr> cfg_paymentDayInMonth = paymentDayInMonth,
                         cfg_pricePerMeal = pricePerMeal,
                         cfg_port = port \<rparr>)"

section \<open>The contract of the weekday count\<close>

text \<open>
  What the specification asks of the count, in its own words: walk a cursor
  back from \<open>t\<close> one day per step, for \<open>n\<close> days, and count the days on which
  the cursor is neither a Saturday nor a Sunday.
\<close>

definition cursor_weekdays :: "moment \<Rightarrow> nat \<Rightarrow> nat" where
  "cursor_weekdays t n =
     length (filter (\<lambda>k. moment_day (t - int k * msPerDay) \<notin> set [0, 6]) [0..<n])"

text \<open>
  A holiday calendar for the examples: the public holidays of Norway that fall
  on a fixed date (the package lists the movable ones around Easter as well).
\<close>

definition norwegian_fixed_holidays :: "int \<Rightarrow> string list" where
  "norwegian_fixed_holidays year =
     map (\<lambda>md. zeroFill year 4 @ md) [''-01-01'', ''-05-01'', ''-05-17'', ''-12-25'', ''-12-26'']"

declare digits.simps [simp del]
declare bit_length.simps [simp del]
declare weekdays_loop.simps [simp del]
declare weekdays_loop_index.simps [simp del]
declare payday_walk.simps [code]

section \<open>Facts about the numbers\<close>

lemma floor_rat_numeral:
  "\<lfloor>numeral a / numeral b :: rat\<rfloor> = numeral a div numeral b"
  using floor_divide_of_int_eq [of "numeral a" "numeral b", where ?'a = rat] by simp

lemma floor_rat_neg_numeral:
  "\<lfloor>- (numeral a / numeral b) :: rat\<rfloor> = - numeral a div numeral b"
  using floor_divide_of_int_eq [of "- numeral a" "numeral b", where ?'a = rat] by simp

lemma floor_rat_one_numeral:
  "\<lfloor>1 / numeral b :: rat\<rfloor> = 1 div numeral b"
  using floor_divide_of_int_eq [of 1 "numeral b", where ?'a = rat] by simp

lemma floor_rat_neg_one_numeral:
  "\<lfloor>- (1 / numeral b) :: rat\<rfloor> = - 1 div numeral b"
  using floor_divide_of_int_eq [of "- 1" "numeral b", where ?'a = rat] by simp

lemma bit_length_numeral:
  "bit_length (numeral k) = 1 + bit_length (numeral k div 2)"
  "bit_length 1 = 1"
  "bit_length 0 = 0"
  "bit_length (- numeral k) = 0"
  by (subst bit_length.simps, simp add: bit_length.simps)+

lemmas js_eval =
  round_double_def Let_def ilog2_def pow2_def round_half_even_def signed_zero_def signed_inf_def
  js_div_def js_mul_def js_add_def js_sub_def bit_length_numeral
  floor_rat_numeral floor_rat_neg_numeral floor_rat_one_numeral floor_rat_neg_one_numeral

lemmas parse_eval =
  parseFloat_def parseFloat_value_def toNumber_def toNumber_value_def scan_decimal_def
  non_decimal_def radix_value_def radix_digit_def is_space_def read_sign_def is_digit_def
  undigits_def digit_val_def scale10_def read_exponent_def

section \<open>Facts about the calendar and the date format\<close>

lemma div_bounds:
  fixes a k :: int
  assumes "0 < k"
  shows "k * (a div k) \<le> a" and "a < k * (a div k) + k"
proof -
  have "a = k * (a div k) + a mod k"
    by simp
  moreover have "0 \<le> a mod k" and "a mod k < k"
    using assms by simp_all
  ultimately show "k * (a div k) \<le> a" and "a < k * (a div k) + k"
    by linarith+
qed

lemma div_eqI:
  fixes a k q :: int
  assumes "k * q \<le> a" and "a < k * q + k"
  shows "a div k = q"
  by (rule int_div_pos_eq [of a k q "a - k * q"]) (use assms in simp_all)

lemma era_split:
  fixes doe :: int
  assumes "0 \<le> doe" and "doe < 146097"
  defines "c \<equiv> min (doe div 36524) 3"
  defines "doc \<equiv> doe - 36524 * c"
  defines "q \<equiv> doc div 1461"
  defines "doq \<equiv> doc mod 1461"
  defines "yq \<equiv> min (doq div 365) 3"
  defines "doy \<equiv> doq - 365 * yq"
  shows "0 \<le> c" "c \<le> 3" "0 \<le> q" "q \<le> 24" "0 \<le> yq" "yq \<le> 3" "0 \<le> doy" "doy \<le> 365"
    "doe = 36524 * c + 1461 * q + 365 * yq + doy"
proof -
  note k = div_bounds [of 36524 doe]
  show c: "0 \<le> c" "c \<le> 3"
    using k assms(1) unfolding c_def by linarith+
  have doc: "0 \<le> doc" "doc \<le> 36524"
    using k assms(1,2) unfolding doc_def c_def by linarith+
  note qb = div_bounds [of 1461 doc]
  show q: "0 \<le> q" "q \<le> 24"
    using qb doc unfolding q_def by linarith+
  have doq_eq: "doc = 1461 * q + doq"
    unfolding q_def doq_def by simp
  have doq: "0 \<le> doq" "doq \<le> 1460"
    unfolding doq_def by simp_all
  note j = div_bounds [of 365 doq]
  show yq: "0 \<le> yq" "yq \<le> 3"
    using j doq unfolding yq_def by linarith+
  show doy: "0 \<le> doy" "doy \<le> 365"
    using j doq unfolding doy_def yq_def by linarith+
  show "doe = 36524 * c + 1461 * q + 365 * yq + doy"
    using doq_eq unfolding doy_def doc_def by linarith
qed

lemma month_day_bounds:
  fixes doy :: int
  assumes "0 \<le> doy" and "doy \<le> 365"
  defines "mp \<equiv> (5 * doy + 2) div 153"
  defines "d \<equiv> doy - (153 * mp + 2) div 5 + 1"
  shows "0 \<le> mp" "mp \<le> 11" "1 \<le> d" "d \<le> 31"
proof -
  note m = div_bounds [of 153 "5 * doy + 2"]
  show mp: "0 \<le> mp" "mp \<le> 11"
    using m assms(1,2) unfolding mp_def by linarith+
  note e = div_bounds [of 5 "153 * mp + 2"]
  show "1 \<le> d" "d \<le> 31"
    using m e unfolding d_def mp_def by linarith+
qed


lemma civil_from_days_props:
  "(case civil_from_days z of (y, m, d) \<Rightarrow>
      days_from_civil y m d = z \<and> 1 \<le> m \<and> m \<le> 12 \<and> 1 \<le> d \<and> d \<le> 31)"
proof -
  define z' where "z' = z + 719468"
  define era where "era = z' div 146097"
  define doe where "doe = z' mod 146097"
  define c where "c = min (doe div 36524) 3"
  define doc where "doc = doe - 36524 * c"
  define q where "q = doc div 1461"
  define doq where "doq = doc mod 1461"
  define yq where "yq = min (doq div 365) 3"
  define doy where "doy = doq - 365 * yq"
  define mp where "mp = (5 * doy + 2) div 153"
  define d where "d = doy - (153 * mp + 2) div 5 + 1"
  define m where "m = (if mp < 10 then mp + 3 else mp - 9)"
  define yoe where "yoe = 100 * c + 4 * q + yq"
  define y where "y = 400 * era + 100 * c + 4 * q + yq"
  have civ: "civil_from_days z = (if m \<le> 2 then y + 1 else y, m, d)"
    unfolding civil_from_days_def Let_def y_def m_def d_def mp_def doy_def yq_def doq_def
      q_def doc_def c_def doe_def era_def z'_def
    by (rule refl)
  have y_eq: "y = 400 * era + yoe"
    unfolding y_def yoe_def by simp
  have doe: "0 \<le> doe" "doe < 146097"
    unfolding doe_def by simp_all
  note es = era_split [OF doe, folded c_def, folded doc_def, folded q_def doq_def, folded yq_def,
      folded doy_def]
  note md = month_day_bounds [OF es(7,8), folded mp_def, folded d_def]
  have yoe: "0 \<le> yoe" "yoe < 400"
    using es unfolding yoe_def by linarith+
  have y4: "yoe div 4 = 25 * c + q"
  proof (rule div_eqI)
    show "4 * (25 * c + q) \<le> yoe"
      using es(5,6) unfolding yoe_def by simp
    show "yoe < 4 * (25 * c + q) + 4"
      using es(5,6) unfolding yoe_def by simp
  qed
  have y100: "yoe div 100 = c"
  proof (rule div_eqI)
    show "100 * c \<le> yoe"
      using es(3,4,5,6) unfolding yoe_def by simp
    show "yoe < 100 * c + 100"
      using es(3,4,5,6) unfolding yoe_def by simp
  qed
  have yd: "y div 400 = era"
  proof (rule div_eqI)
    show "400 * era \<le> y"
      using yoe unfolding y_eq by simp
    show "y < 400 * era + 400"
      using yoe unfolding y_eq by simp
  qed
  have ym: "y mod 400 = yoe"
    using yd minus_mult_div_eq_mod [of y 400] unfolding y_eq by linarith
  have y': "(if m \<le> 2 then (if m \<le> 2 then y + 1 else y) - 1 else (if m \<le> 2 then y + 1 else y)) = y"
    by simp
  have mp': "(m + 9) mod 12 = mp"
  proof (cases "mp < 10")
    case True
    then have "m + 9 = mp + 1 * 12" unfolding m_def by simp
    then have "(m + 9) mod 12 = mp mod 12" by (simp only: mod_mult_self1)
    then show ?thesis using md(1) True by simp
  next
    case False
    then have "m + 9 = mp" unfolding m_def by simp
    then show ?thesis using md(1,2) by simp
  qed
  have doy': "(153 * mp + 2) div 5 + d - 1 = doy"
    unfolding d_def by simp
  have "days_from_civil (if m \<le> 2 then y + 1 else y) m d = era * 146097 + doe - 719468"
    unfolding days_from_civil_def Let_def y' mp' doy' yd ym y4 y100
    using es(9) unfolding yoe_def by (simp add: algebra_simps)
  also have "\<dots> = z"
    using mult_div_mod_eq [of 146097 z'] unfolding era_def doe_def z'_def by linarith
  finally have "days_from_civil (if m \<le> 2 then y + 1 else y) m d = z" .
  moreover have "1 \<le> m" and "m \<le> 12"
    using md(1,2) unfolding m_def by (simp_all split: if_splits)
  ultimately show ?thesis
    unfolding civ using md(3,4) by simp
qed

text \<open>Some known dates: day 0, a Tuesday in 2026, leap days, and the days around them.\<close>

lemma calendar_known_dates:
  "civil_from_days 0 = (1970, 1, 1)"
  "civil_from_days (- 1) = (1969, 12, 31)"
  "civil_from_days 20760 = (2026, 11, 3)"
  "civil_from_days 19782 = (2024, 2, 29)"
  "civil_from_days 11016 = (2000, 2, 29)"
  "civil_from_days (- 25508) = (1900, 3, 1)"
  "civil_from_days (- 25509) = (1900, 2, 28)"
  "days_from_civil 2027 1 1 = 20819"
  "moment_day (20760 * msPerDay) = 2"
  by code_simp+

lemma civil_from_days_inj:
  assumes "civil_from_days z1 = civil_from_days z2"
  shows "z1 = z2"
  using civil_from_days_props [of z1] civil_from_days_props [of z2] assms
  by (auto split: prod.splits)

lemma digit_val_digit_char:
  assumes "k < 10"
  shows "digit_val (digit_char k) = k"
proof -
  from assms have "k \<in> {0, 1, 2, 3, 4, 5, 6, 7, 8, 9}"
    by auto
  then show ?thesis
    by (elim insertE emptyE) (simp_all add: digit_val_def digit_char_def)
qed

lemma digit_char_not_minus:
  assumes "k < 10"
  shows "digit_char k \<noteq> CHR ''-''"
proof -
  from assms have "k \<in> {0, 1, 2, 3, 4, 5, 6, 7, 8, 9}"
    by auto
  then show ?thesis
    by (elim insertE emptyE) (simp_all add: digit_char_def)
qed

lemma undigits_snoc:
  "undigits (s @ [c]) = 10 * undigits s + digit_val c"
  by (simp add: undigits_def)

lemma undigits_digits:
  "undigits (digits n) = n"
proof (induction n rule: digits.induct)
  case (1 n)
  show ?case
  proof (cases "n < 10")
    case True
    then show ?thesis
      by (subst digits.simps) (simp add: undigits_def digit_val_digit_char)
  next
    case False
    then have "undigits (digits n) = 10 * undigits (digits (n div 10)) + digit_val (digit_char (n mod 10))"
      by (subst digits.simps) (simp add: undigits_snoc)
    also have "\<dots> = 10 * (n div 10) + n mod 10"
      using "1.IH" False by (simp add: digit_val_digit_char)
    finally show ?thesis
      by simp
  qed
qed

lemma digits_not_Nil:
  "digits n \<noteq> []"
  by (subst digits.simps) simp

lemma hd_digits_not_minus:
  "hd (digits n) \<noteq> CHR ''-''"
proof (induction n rule: digits.induct)
  case (1 n)
  show ?case
  proof (cases "n < 10")
    case True
    then show ?thesis
      by (subst digits.simps) (simp add: digit_char_not_minus)
  next
    case False
    then have "hd (digits n) = hd (digits (n div 10))"
      by (subst digits.simps) (simp add: digits_not_Nil)
    then show ?thesis
      using "1.IH" False by simp
  qed
qed

lemma undigits_zeros:
  "undigits (replicate k (CHR ''0'') @ s) = undigits s"
proof -
  have "foldl (\<lambda>a c. 10 * a + digit_val c) 0 (replicate k (CHR ''0'')) = 0"
    by (induction k) (simp_all add: digit_val_def)
  then show ?thesis
    by (simp add: undigits_def)
qed

lemma unfill_zeroFill:
  "unfill (zeroFill number targetLength) = number"
proof (cases "0 \<le> number")
  case True
  define k where "k = targetLength - length (digits (nat \<bar>number\<bar>))"
  have "hd (replicate k (CHR ''0'') @ digits (nat \<bar>number\<bar>)) \<noteq> CHR ''-''"
    using hd_digits_not_minus [of "nat \<bar>number\<bar>"] by (cases k) simp_all
  then show ?thesis
    using True by (simp add: unfill_def zeroFill_def Let_def k_def undigits_zeros undigits_digits)
next
  case False
  then show ?thesis
    by (simp add: unfill_def zeroFill_def Let_def undigits_zeros undigits_digits)
qed

lemma zeroFill_inj:
  assumes "zeroFill a n = zeroFill b n"
  shows "a = b"
  using assms unfill_zeroFill by metis

lemma length_zeroFill_2:
  assumes "0 \<le> n" and "n < 100"
  shows "length (zeroFill n 2) = 2"
proof (cases "n < 10")
  case True
  with assms(1) have "nat \<bar>n\<bar> < 10"
    by simp
  then have "digits (nat \<bar>n\<bar>) = [digit_char (nat \<bar>n\<bar>)]"
    by (subst digits.simps) simp
  then show ?thesis
    using assms(1) by (simp add: zeroFill_def)
next
  case False
  with assms have "nat \<bar>n\<bar> div 10 < 10" and "\<not> nat \<bar>n\<bar> < 10"
    by simp_all
  then have "length (digits (nat \<bar>n\<bar>)) = 2"
    by (subst digits.simps, subst digits.simps) simp
  then show ?thesis
    using assms(1) by (simp add: zeroFill_def)
qed

lemma moment_format_date_inj:
  assumes "moment_format_date s = moment_format_date t"
  shows "s div msPerDay = t div msPerDay"
proof -
  obtain y1 m1 d1 where c1: "civil_from_days (s div msPerDay) = (y1, m1, d1)"
    by (cases "civil_from_days (s div msPerDay)") auto
  obtain y2 m2 d2 where c2: "civil_from_days (t div msPerDay) = (y2, m2, d2)"
    by (cases "civil_from_days (t div msPerDay)") auto
  have r1: "1 \<le> m1" "m1 \<le> 12" "1 \<le> d1" "d1 \<le> 31"
    using civil_from_days_props [of "s div msPerDay"] c1 by simp_all
  have r2: "1 \<le> m2" "m2 \<le> 12" "1 \<le> d2" "d2 \<le> 31"
    using civil_from_days_props [of "t div msPerDay"] c2 by simp_all
  have l1: "length (zeroFill m1 2) = 2" "length (zeroFill d1 2) = 2"
    using r1 by (simp_all add: length_zeroFill_2)
  have l2: "length (zeroFill m2 2) = 2" "length (zeroFill d2 2) = 2"
    using r2 by (simp_all add: length_zeroFill_2)
  have eq: "zeroFill y1 4 @ (''-'' @ zeroFill m1 2 @ ''-'' @ zeroFill d1 2)
          = zeroFill y2 4 @ (''-'' @ zeroFill m2 2 @ ''-'' @ zeroFill d2 2)"
    using assms c1 c2
    by (simp add: moment_format_date_def moment_year_def moment_month_def moment_date_def)
  have "zeroFill y1 4 = zeroFill y2 4
      \<and> ''-'' @ zeroFill m1 2 @ ''-'' @ zeroFill d1 2 = ''-'' @ zeroFill m2 2 @ ''-'' @ zeroFill d2 2"
    using eq l1 l2 by (subst (asm) append_eq_append_conv) simp_all
  then have "zeroFill y1 4 = zeroFill y2 4" and "zeroFill m1 2 = zeroFill m2 2"
    and "zeroFill d1 2 = zeroFill d2 2"
    using l1 l2 by simp_all
  then have "y1 = y2" and "m1 = m2" and "d1 = d2"
    by (simp_all add: zeroFill_inj)
  with c1 c2 show ?thesis
    by (simp add: civil_from_days_inj)
qed


lemma payday_walk_stop:
  assumes "\<not> excluded holidayArray t"
  shows "payday_walk holidayArray t = Some t"
  using assms by (subst payday_walk.simps) simp

lemma payday_walk_step:
  assumes "excluded holidayArray t"
  shows "payday_walk holidayArray t = payday_walk holidayArray (t - msPerDay)"
  using assms by (subst payday_walk.simps) (simp add: moment_subtract_day_def)

lemma day_number_back:
  "(t - k * msPerDay) div msPerDay = t div msPerDay - k"
  unfolding msPerDay_def using div_mult_self1 [of 86400000 t "- k"] by simp

lemma monday_back:
  fixes D :: int and j :: nat
  shows "(D - int (nat ((D + 3) mod 7) + 7 * j) + 4) mod 7 = 1"
proof -
  have "int (nat ((D + 3) mod 7) + 7 * j) = (D + 3) mod 7 + 7 * int j"
    by simp
  moreover have "(D - ((D + 3) mod 7 + 7 * i) + 4) mod 7 = 1" for i :: int
    by presburger
  ultimately show ?thesis
    by simp
qed

lemma monday_back_le:
  fixes D :: int
  shows "nat ((D + 3) mod 7) \<le> 6"
proof -
  have "(D + 3) mod 7 < 7"
    by simp
  then show ?thesis
    by linarith
qed

lemma exists_not_excluded:
  "\<exists>k \<le> 7 * length holidayArray + 6. \<not> excluded holidayArray (t - int k * msPerDay)"
proof (rule ccontr)
  assume neg: "\<not> ?thesis"
  define D where "D = t div msPerDay"
  define k0 where "k0 = nat ((D + 3) mod 7)"
  define f where "f j = moment_format_date (t - int (k0 + 7 * j) * msPerDay)" for j :: nat
  define J where "J = {j. j \<le> length holidayArray}"
  have k0: "k0 \<le> 6"
    unfolding k0_def by (rule monday_back_le)
  have in_hs: "f j \<in> set holidayArray" if "j \<in> J" for j
  proof -
    from that k0 have "k0 + 7 * j \<le> 7 * length holidayArray + 6"
      unfolding J_def by simp
    with neg have ex: "excluded holidayArray (t - int (k0 + 7 * j) * msPerDay)"
      by blast
    have "moment_day (t - int (k0 + 7 * j) * msPerDay) = 1"
      unfolding moment_day_def day_number_back D_def [symmetric] k0_def
      by (rule monday_back)
    with ex show ?thesis
      by (simp add: excluded_def f_def)
  qed
  have "inj_on f J"
  proof (rule inj_onI)
    fix i j
    assume "f i = f j"
    then have "(t - int (k0 + 7 * i) * msPerDay) div msPerDay
             = (t - int (k0 + 7 * j) * msPerDay) div msPerDay"
      unfolding f_def by (rule moment_format_date_inj)
    then show "i = j"
      unfolding day_number_back by simp
  qed
  then have "card (f ` J) = card J"
    by (rule card_image)
  moreover have "card J = length holidayArray + 1"
    unfolding J_def by simp
  moreover have "card (f ` J) \<le> card (set holidayArray)"
    using in_hs by (intro card_mono) auto
  moreover have "card (set holidayArray) \<le> length holidayArray"
    by (rule card_length)
  ultimately show False
    by simp
qed

lemma payday_walk_reaches:
  assumes "\<not> excluded holidayArray (t - int k * msPerDay)"
  shows "\<exists>j \<le> k. payday_walk holidayArray t = Some (t - int j * msPerDay)
           \<and> \<not> excluded holidayArray (t - int j * msPerDay)"
  using assms
proof (induction k arbitrary: t)
  case 0
  then have "payday_walk holidayArray t = Some (t - int 0 * msPerDay)
      \<and> \<not> excluded holidayArray (t - int 0 * msPerDay)"
    by (simp add: payday_walk_stop)
  then show ?case
    by blast
next
  case (Suc k)
  show ?case
  proof (cases "excluded holidayArray t")
    case False
    then have "payday_walk holidayArray t = Some (t - int 0 * msPerDay)
        \<and> \<not> excluded holidayArray (t - int 0 * msPerDay)"
      by (simp add: payday_walk_stop)
    then show ?thesis
      by blast
  next
    case True
    have e0: "t - msPerDay - int k * msPerDay = t - int (Suc k) * msPerDay"
      by (simp add: algebra_simps)
    from Suc.prems have "\<not> excluded holidayArray (t - msPerDay - int k * msPerDay)"
      unfolding e0 .
    from Suc.IH [OF this] obtain j where j: "j \<le> k"
      "payday_walk holidayArray (t - msPerDay) = Some (t - msPerDay - int j * msPerDay)"
      "\<not> excluded holidayArray (t - msPerDay - int j * msPerDay)"
      by blast
    have e: "t - msPerDay - int j * msPerDay = t - int (Suc j) * msPerDay"
      by (simp add: algebra_simps)
    have "Suc j \<le> Suc k \<and> payday_walk holidayArray t = Some (t - int (Suc j) * msPerDay)
        \<and> \<not> excluded holidayArray (t - int (Suc j) * msPerDay)"
      using j True unfolding e by (simp add: payday_walk_step)
    then show ?thesis
      by blast
  qed
qed

lemma payday_walk_bound:
  "\<exists>j \<le> 7 * length holidayArray + 6.
     payday_walk holidayArray t = Some (t - int j * msPerDay)
     \<and> \<not> excluded holidayArray (t - int j * msPerDay)"
proof -
  from exists_not_excluded obtain k where k: "k \<le> 7 * length holidayArray + 6"
    "\<not> excluded holidayArray (t - int k * msPerDay)"
    by blast
  from payday_walk_reaches [OF k(2)] k(1) show ?thesis
    by (meson le_trans)
qed

section \<open>Facts about the loops\<close>

lemma cursor_weekdays_Suc:
  "cursor_weekdays t (Suc n) =
     (if moment_day t \<in> set [0, 6] then 0 else 1) + cursor_weekdays (t - msPerDay) n"
proof -
  have upt: "[0..<Suc n] = 0 # map Suc [0..<n]"
    by (simp only: map_Suc_upt upt_conv_Cons [of 0 "Suc n"] zero_less_Suc)
  have shift: "t - int (Suc k) * msPerDay = t - msPerDay - int k * msPerDay" for k
    by (simp add: algebra_simps)
  show ?thesis
    unfolding cursor_weekdays_def upt
    by (simp add: filter_map o_def shift del: upt_Suc of_nat_Suc)
qed

lemma weekdays_loop_eq:
  "weekdays_loop to_ref d c h =
     (c + cursor_weekdays (h to_ref) (nat (d + 1)),
      h(to_ref := h to_ref - int (nat (d + 1)) * msPerDay))"
proof (induction to_ref d c h rule: weekdays_loop.induct)
  case (1 to_ref d c h)
  show ?case
  proof (cases "0 \<le> d")
    case False
    then show ?thesis
      by (subst weekdays_loop.simps) (simp add: cursor_weekdays_def)
  next
    case True
    then have n: "nat (d + 1) = Suc (nat (d - 1 + 1))"
      by simp
    define c' where "c' = (if moment_day (h to_ref) \<in> set [0, 6] then c else c + 1)"
    define h' where "h' = h(to_ref := moment_subtract_day (h to_ref))"
    have h't: "h' to_ref = h to_ref - msPerDay"
      by (simp add: h'_def moment_subtract_day_def)
    have h'u: "h'(to_ref := x) = h(to_ref := x)" for x
      by (simp add: h'_def)
    have c'c: "c' = c + (if moment_day (h to_ref) \<in> set [0, 6] then 0 else 1)"
      by (simp add: c'_def)
    have "weekdays_loop to_ref d c h = weekdays_loop to_ref (d - 1) c' h'"
      using True unfolding c'_def h'_def by (subst weekdays_loop.simps) simp
    also have "\<dots> =
        (c' + cursor_weekdays (h' to_ref) (nat (d - 1 + 1)),
         h'(to_ref := h' to_ref - int (nat (d - 1 + 1)) * msPerDay))"
      using "1.IH" [OF True] unfolding c'_def h'_def .
    also have "\<dots> =
        (c + cursor_weekdays (h to_ref) (nat (d + 1)),
         h(to_ref := h to_ref - int (nat (d + 1)) * msPerDay))"
      unfolding n cursor_weekdays_Suc h't h'u c'c by (simp add: algebra_simps)
    finally show ?thesis .
  qed
qed

lemma weekdays_loop_index_eq:
  "weekdays_loop_index t d c = c + cursor_weekdays t (nat (d + 1))"
proof (induction t d c rule: weekdays_loop_index.induct)
  case (1 t d c)
  show ?case
  proof (cases "0 \<le> d")
    case False
    then show ?thesis
      by (subst weekdays_loop_index.simps) (simp add: cursor_weekdays_def)
  next
    case True
    then have n: "nat (d + 1) = Suc (nat (d - 1 + 1))"
      by simp
    have "weekdays_loop_index t d c =
        weekdays_loop_index (moment_subtract_day t) (d - 1)
          (if moment_day t \<in> set [0, 6] then c else c + 1)"
      using True by (subst weekdays_loop_index.simps) simp
    also have "\<dots> =
        (if moment_day t \<in> set [0, 6] then c else c + 1)
           + cursor_weekdays (t - msPerDay) (nat (d - 1 + 1))"
      using "1.IH" [OF True] by (simp add: moment_subtract_day_def)
    also have "\<dots> = c + cursor_weekdays t (nat (d + 1))"
      unfolding n cursor_weekdays_Suc by simp
    finally show ?thesis .
  qed
qed

lemma getNextPayDate_returns:
  "\<exists>r. getNextPayDate holidays paymentDayInMonth now = Some r
       \<and> \<not> excluded (holidays (moment_year now)) r"
  using payday_walk_bound unfolding getNextPayDate_def Let_def by blast

lemma calculateWeekdaysBetweenDates_eq:
  "calculateWeekdaysBetweenDates from_ref to_ref h =
     (cursor_weekdays (h to_ref) (nat (moment_diff_days (h to_ref) (h from_ref) + 1)),
      h(to_ref := h to_ref - int (nat (moment_diff_days (h to_ref) (h from_ref) + 1)) * msPerDay))"
  by (simp add: calculateWeekdaysBetweenDates_def weekdays_loop_eq)


lemma getNextPayDate_not_weekend_nor_listed:
  assumes "getNextPayDate holidays paymentDayInMonth now = Some r"
  shows "moment_day r \<noteq> 0 \<and> moment_day r \<noteq> 6
       \<and> moment_format_date r \<notin> set (holidays (moment_year now))"
  using getNextPayDate_returns [of holidays paymentDayInMonth now] assms
  by (auto simp: excluded_def)


lemma moment_diff_days_within_a_day:
  assumes "b - msPerDay < a" and "a \<le> b"
  shows "moment_diff_days a b = 0"
proof (cases "a = b")
  case True
  then show ?thesis
    by (simp add: moment_diff_days_def absFloor_div_def)
next
  case False
  with assms have "0 \<le> b - a" and "b - a < msPerDay" and "a - b < 0"
    by simp_all
  then show ?thesis
    by (simp add: moment_diff_days_def absFloor_div_def div_pos_pos_trivial)
qed

lemma calculateWeekdaysBetweenDates_index_eq:
  "\<exists>nextPayDate. getNextPayDate holidays paymentDayInMonth now = Some nextPayDate
     \<and> calculateWeekdaysBetweenDates_index holidays paymentDayInMonth now from_ref to_ref h =
         Some (cursor_weekdays nextPayDate (nat (moment_diff_days (h to_ref) (h from_ref) + 1)), h)"
proof -
  from getNextPayDate_returns obtain r where "getNextPayDate holidays paymentDayInMonth now = Some r"
    by blast
  then show ?thesis
    by (simp add: calculateWeekdaysBetweenDates_index_def weekdays_loop_index_eq)
qed


section \<open>Facts about the page texts and the handlers\<close>


lemma balanceMatcher_match_SomeD:
  assumes "balanceMatcher_match s = Some ms"
  shows "\<exists>g1 g2. ms = [s, g1, g2] \<and> 2 \<le> length g1 \<and> is_digit (hd g1)
           \<and> 1 \<le> length g2 \<and> length g2 \<le> 5 \<and> list_all is_letter g2"
proof (cases "map ascii_upper (take 7 s) = ''SALDO: ''")
  case False
  with assms show ?thesis
    by (simp add: balanceMatcher_match_def)
next
  case True
  with assms show ?thesis
    unfolding balanceMatcher_match_def Let_def
    by (simp only: if_True split: if_splits) auto
qed

lemma scale10_nonneg:
  assumes "0 \<le> x"
  shows "0 \<le> scale10 x e"
  using assms by (simp add: scale10_def)

lemma pow2_pos:
  "0 < pow2 e"
  by (simp add: pow2_def)

lemma round_half_even_nonneg:
  assumes "0 \<le> y"
  shows "0 \<le> round_half_even y"
proof -
  from assms have "0 \<le> \<lfloor>y\<rfloor>"
    by simp
  then show ?thesis
    by (simp add: round_half_even_def Let_def)
qed

lemma round_double_nonneg:
  assumes "0 \<le> x"
  shows "round_double False x = PosInf \<or> (\<exists>q\<ge>0. round_double False x = Num q)"
proof (cases "x = 0")
  case True
  then show ?thesis
    by (simp add: round_double_def signed_zero_def)
next
  case False
  define ulp where "ulp = pow2 (max (ilog2 \<bar>x\<bar>) (- 1022) - 52)"
  define r where "r = of_int (round_half_even (\<bar>x\<bar> / ulp)) * ulp"
  have "0 < ulp"
    unfolding ulp_def by (rule pow2_pos)
  then have "0 \<le> \<bar>x\<bar> / ulp"
    by simp
  then have "0 \<le> round_half_even (\<bar>x\<bar> / ulp)"
    by (rule round_half_even_nonneg)
  with \<open>0 < ulp\<close> have "0 \<le> r"
    unfolding r_def by simp
  have "round_double False x =
      (if pow2 1024 \<le> r then PosInf else if r = 0 then Num 0 else Num r)"
    using False assms
    by (simp add: round_double_def Let_def r_def ulp_def signed_inf_def signed_zero_def)
  with \<open>0 \<le> r\<close> show ?thesis
    by auto
qed

lemma parseFloat_digit_first:
  assumes "is_digit c"
  shows "parseFloat (c # t) = PosInf \<or> (\<exists>q\<ge>0. parseFloat (c # t) = Num q)"
proof -
  from assms have c: "\<not> is_space c" "c \<noteq> CHR ''-''" "c \<noteq> CHR ''+''" "c \<noteq> CHR ''I''"
    by (auto simp: is_digit_def is_space_def)
  have t: "dropWhile is_space (c # t) = c # t"
    using c(1) by simp
  have s: "read_sign (c # t) = (False, c # t)"
    using c(2,3) by (simp add: read_sign_def)
  have i: "(take 8 (c # t) = ''Infinity'') = False"
    using c(4) by auto
  define ip where "ip = takeWhile is_digit (c # t)"
  define r1 where "r1 = dropWhile is_digit (c # t)"
  define fp where "fp = (if r1 \<noteq> [] \<and> hd r1 = CHR ''.'' then takeWhile is_digit (tl r1) else [])"
  define r2 where "r2 = (if r1 \<noteq> [] \<and> hd r1 = CHR ''.'' then dropWhile is_digit (tl r1) else r1)"
  define v where "v = scale10 (scale10 (of_int (int (undigits (ip @ fp)))) (- int (length fp)))
      (fst (read_exponent r2))"
  have ip: "(ip = [] \<and> fp = []) = False"
    using assms by (simp add: ip_def)
  have "scan_decimal (c # t) =
      (if ip = [] \<and> fp = [] then None
       else Some (round_double False (if False then - v else v), snd (read_exponent r2)))"
    unfolding scan_decimal_def Let_def s fst_conv snd_conv i if_False
    unfolding v_def r2_def fp_def r1_def ip_def ..
  then have "parseFloat (c # t) = round_double False v"
    unfolding parseFloat_def t ip by simp
  moreover have "0 \<le> v"
    unfolding v_def by (intro scale10_nonneg) simp
  ultimately show ?thesis
    using round_double_nonneg [of v] by simp
qed

lemma balance_amount_nonneg:
  assumes "balanceMatcher_match s = Some ms"
  shows "parseFloat_value (js_at ms 1) = PosInf
       \<or> (\<exists>q\<ge>0. parseFloat_value (js_at ms 1) = Num q)"
proof -
  from balanceMatcher_match_SomeD [OF assms] obtain g1 g2
    where g: "ms = [s, g1, g2]" "2 \<le> length g1" "is_digit (hd g1)"
    by blast
  then obtain c t where ct: "g1 = c # t"
    by (cases g1) auto
  with g(3) have "is_digit c"
    by simp
  from parseFloat_digit_first [OF this, of t] show ?thesis
    using g(1) ct by (simp add: js_at_def parseFloat_value_def)
qed

lemma getK6Balance_amount_nonneg:
  assumes "getK6Balance balanceString dateString = Some bal"
  shows "currentBalance bal = PosInf \<or> (\<exists>q\<ge>0. currentBalance bal = Num q)"
proof -
  from assms obtain ms where ms: "balanceMatcher_match balanceString = Some ms"
    by (auto simp: getK6Balance_def split: option.splits)
  from balance_amount_nonneg [OF this] assms ms show ?thesis
    by (auto simp: getK6Balance_def Let_def split: option.splits)
qed

lemma getK6Balance_index_amount_nonneg:
  assumes "getK6Balance_index balanceString dateString = Inr bal"
  shows "currentBalance bal = PosInf \<or> (\<exists>q\<ge>0. currentBalance bal = Num q)"
proof -
  from assms obtain ms where ms: "balanceMatcher_match balanceString = Some ms"
    by (auto simp: getK6Balance_index_def split: option.splits)
  from balance_amount_nonneg [OF this] assms ms show ?thesis
    by (auto simp: getK6Balance_index_def Let_def split: option.splits)
qed

lemma getK6Balance_currency_undefined:
  assumes "getK6Balance balanceString dateString = Some bal"
  shows "balanceCurrencyUnit bal = None"
proof -
  from assms obtain ms where ms: "balanceMatcher_match balanceString = Some ms"
    by (auto simp: getK6Balance_def split: option.splits)
  then have "js_at ms 80 = None"
    by (auto simp: js_at_def dest!: balanceMatcher_match_SomeD)
  with assms ms show ?thesis
    by (auto simp: getK6Balance_def Let_def split: option.splits)
qed

lemma getK6Balance_index_currency:
  assumes "getK6Balance_index balanceString dateString = Inr bal"
  shows "\<exists>u. balanceCurrencyUnit bal = Some u \<and> 1 \<le> length u \<and> length u \<le> 5
           \<and> list_all is_letter u"
proof -
  from assms obtain ms where ms: "balanceMatcher_match balanceString = Some ms"
    by (auto simp: getK6Balance_index_def split: option.splits)
  then obtain g1 g2 where g: "ms = [balanceString, g1, g2]" "1 \<le> length g2" "length g2 \<le> 5"
      "list_all is_letter g2"
    by (auto dest!: balanceMatcher_match_SomeD)
  then have "js_at ms 2 = Some g2"
    by (simp add: js_at_def)
  with assms ms g show ?thesis
    by (auto simp: getK6Balance_index_def Let_def split: option.splits)
qed

lemma getK6Balance_fails_iff:
  "getK6Balance balanceString dateString = None
     \<longleftrightarrow> balanceMatcher_match balanceString = None \<or> dateMatcher_match dateString = None"
  by (auto simp: getK6Balance_def Let_def split: option.splits)

lemma app_get_extraction_failure:
  assumes "balanceMatcher_match balanceString = None \<or> dateMatcher_match dateString = None"
  shows "app_get holidays paymentDayInMonth pricePerMeal now balanceString dateString
           = Some (Json_error ''Could not obtain account balance'')"
proof -
  from assms have "getK6Balance balanceString dateString = None"
    by (simp add: getK6Balance_fails_iff)
  then show ?thesis
    by (simp add: app_get_def generateBalanceData_def)
qed

lemma app_get_index_extraction_failure:
  assumes "balanceMatcher_match balanceString = None \<or> dateMatcher_match dateString = None"
  shows "app_get_index holidays paymentDayInMonth pricePerMeal priceEnv now balanceString dateString
           = Some (Unhandled TypeError)"
proof -
  from assms have k: "getK6Balance_index balanceString dateString = Inl TypeError"
    by (auto simp: getK6Balance_index_def Let_def split: option.splits)
  obtain r where r: "getNextPayDate holidays paymentDayInMonth now = Some r"
    using getNextPayDate_returns by blast
  obtain n h where c: "calculateWeekdaysBetweenDates_index holidays paymentDayInMonth now 0 1
      ((\<lambda>r. 0)(0 := now, 1 := r)) = Some (n, h)"
    using calculateWeekdaysBetweenDates_index_eq by blast
  show ?thesis
    by (simp only: app_get_index_def r c k option.case prod.case sum.case)
qed

lemma computeReport_index_same_price:
  assumes "toNumber_value priceEnv = pricePerMeal"
  shows "computeReport_index pricePerMeal priceEnv bal w = computeReport pricePerMeal bal w"
  using assms by (simp add: computeReport_index_def computeReport_def)

text \<open>
  The three derived numbers in src/unnamed/part_000, and the two examples of
  the specification: price 25, amount 130 and 3 weekdays give 5, -2 and -50;
  price 20, amount 0 and 4 weekdays give 0, 4 and 80.
\<close>

lemma computeReport_fields:
  "r_currentBalanceInNumberOfMeals (computeReport pricePerMeal bal w)
     = js_floor (js_div (currentBalance bal) pricePerMeal)"
  "r_mealsNeeded (computeReport pricePerMeal bal w)
     = js_sub (Num (of_int w)) (js_floor (js_div (currentBalance bal) pricePerMeal))"
  "r_topupNeeded (computeReport pricePerMeal bal w)
     = js_mul (js_sub (Num (of_int w)) (js_floor (js_div (currentBalance bal) pricePerMeal)))
         pricePerMeal"
  by (simp_all add: computeReport_def Let_def)

lemma computeReport_examples:
  "r_currentBalanceInNumberOfMeals (computeReport (Num 25) (bal\<lparr>currentBalance := Num 130\<rparr>) 3) = Num 5"
  "r_mealsNeeded (computeReport (Num 25) (bal\<lparr>currentBalance := Num 130\<rparr>) 3) = Num (- 2)"
  "r_topupNeeded (computeReport (Num 25) (bal\<lparr>currentBalance := Num 130\<rparr>) 3) = Num (- 50)"
  "r_currentBalanceInNumberOfMeals (computeReport (Num 20) (bal\<lparr>currentBalance := Num 0\<rparr>) 4) = Num 0"
  "r_mealsNeeded (computeReport (Num 20) (bal\<lparr>currentBalance := Num 0\<rparr>) 4) = Num 4"
  "r_topupNeeded (computeReport (Num 20) (bal\<lparr>currentBalance := Num 0\<rparr>) 4) = Num 80"
  by (simp_all add: computeReport_fields js_eval)




section \<open>The claims\<close>

text \<open>
  Claim C1. The date \<open>getNextPayDate\<close> returns is never a Saturday or a Sunday,
  and never a date of the holiday list for the returned date's year. The code
  reads the holiday list of the current year only
  (\<open>getNextPayDate_not_weekend_nor_listed\<close> is what it guarantees). On
  20 December 2026 at noon, with payment day 1, the candidate 1 December is
  past, so it moves to 1 January 2027, a Friday; the list of 2026 does not
  hold that date, and the function returns it, although the calendar lists
  it as a holiday of 2027.
\<close>

theorem getNextPayDate_next_year_holiday:
  "getNextPayDate norwegian_fixed_holidays 1 (20807 * msPerDay + 43200000) = Some (20819 * msPerDay)
   \<and> moment_format_date (20807 * msPerDay + 43200000) = ''2026-12-20''
   \<and> moment_format_date (20819 * msPerDay) = ''2027-01-01''
   \<and> moment_year (20819 * msPerDay) = 2027
   \<and> moment_day (20819 * msPerDay) = 5
   \<and> moment_format_date (20819 * msPerDay) \<in> set (norwegian_fixed_holidays (moment_year (20819 * msPerDay)))"
  by code_simp

text \<open>
  Claim C2. \<open>calculateWeekdaysBetweenDates\<close> counts, over the
  \<open>to.diff (from, 'days') + 1\<close> days walked back from \<open>to\<close>, the days on which
  the walking cursor is neither a Saturday nor a Sunday. The function of
  src/unnamed/part_000 does (\<open>calculateWeekdaysBetweenDates_eq\<close>); the one of
  src/index.js walks a pay date it resolves itself
  (\<open>calculateWeekdaysBetweenDates_index_eq\<close>). With \<open>from\<close> and \<open>to\<close> both
  Saturday 7 November 2026 at noon, called on Tuesday 3 November with payment
  day 15 and no holidays, the contract gives 0 and src/index.js gives 1 (its
  pay date is Friday 13 November).
\<close>

theorem weekdays_index_walks_other_date:
  "map_option fst
     (calculateWeekdaysBetweenDates_index (\<lambda>year. []) 15 (20760 * msPerDay + 36000000) 0 1
        ((\<lambda>r. 0)(0 := 20764 * msPerDay + 43200000, 1 := 20764 * msPerDay + 43200000))) = Some 1
   \<and> moment_day (20764 * msPerDay + 43200000) = 6
   \<and> moment_diff_days (20764 * msPerDay + 43200000) (20764 * msPerDay + 43200000) = 0
   \<and> cursor_weekdays (20764 * msPerDay + 43200000) 1 = 0
   \<and> fst (calculateWeekdaysBetweenDates 0 1
        ((\<lambda>r. 0)(0 := 20764 * msPerDay + 43200000, 1 := 20764 * msPerDay + 43200000))) = 0"
  by code_simp

text \<open>
  Claim C3. When the balance text or the date text does not match its pattern,
  the request ends in the JSON body \<open>{ error: ... }\<close>. The handler of
  src/unnamed/part_000 does that (\<open>app_get_extraction_failure\<close>); the handler of
  src/index.js reads an element of the \<open>null\<close> match, and the \<open>TypeError\<close>
  leaves it without a response (\<open>app_get_index_extraction_failure\<close>). The
  balance text \<open>Saldo: n/a\<close> shows both.
\<close>

theorem app_get_index_throws:
  "balanceMatcher_match ''Saldo: n/a'' = None
   \<and> app_get_index (\<lambda>year. []) 15 (Num 25) (Some ''25'') (20760 * msPerDay + 36000000)
        ''Saldo: n/a'' ''01.02.2024 10:30'' = Some (Unhandled TypeError)
   \<and> app_get (\<lambda>year. []) 15 (Num 25) (20760 * msPerDay + 36000000)
        ''Saldo: n/a'' ''01.02.2024 10:30'' = Some (Json_error ''Could not obtain account balance'')"
proof -
  have m: "balanceMatcher_match ''Saldo: n/a'' = None"
    by code_simp
  then show ?thesis
    by (simp add: app_get_index_extraction_failure app_get_extraction_failure)
qed

text \<open>
  Claim C4. The balance record of a successful extraction has a currency unit
  that matches \<open>[A-Z]{1,5}\<close>, the currency group of the balance pattern.
  src/unnamed/part_000 reads index 80 of a match array of three elements, so
  its currency unit is always \<open>undefined\<close>
  (\<open>getK6Balance_currency_undefined\<close>); src/index.js reads index 2
  (\<open>getK6Balance_index_currency\<close>). The amount is a number \<open>\<ge> 0\<close>,
  or \<open>Infinity\<close>, in both (\<open>getK6Balance_amount_nonneg\<close>,
  \<open>getK6Balance_index_amount_nonneg\<close>). The texts \<open>Saldo: 130.50 NOK\<close> and
  \<open>01.02.2024 10:30\<close> show both.
\<close>

theorem getK6Balance_currency_index_80:
  "getK6Balance ''Saldo: 130.50 NOK'' ''01.02.2024 10:30''
     = Some \<lparr> currentBalance = Num (261 / 2), balanceCurrencyUnit = None,
              lastToppedUpUTC = 1706783400000 \<rparr>
   \<and> getK6Balance_index ''Saldo: 130.50 NOK'' ''01.02.2024 10:30''
     = Inr \<lparr> currentBalance = Num (261 / 2), balanceCurrencyUnit = Some ''NOK'',
             lastToppedUpUTC = 1706783400000 \<rparr>"
proof -
  have b: "balanceMatcher_match ''Saldo: 130.50 NOK'' = Some [''Saldo: 130.50 NOK'', ''130.50'', ''NOK'']"
    by code_simp
  have d: "dateMatcher_match ''01.02.2024 10:30''
      = Some [''01.02.2024 10:30'', ''01'', ''02'', ''2024'', ''10'', ''30'']"
    by code_simp
  have p: "parseFloat ''130.50'' = Num (261 / 2)"
    by (simp add: parse_eval js_eval)
  have i: "parseInt ''01'' = 1" "parseInt ''02'' = 2" "parseInt ''2024'' = 2024"
    "parseInt ''10'' = 10" "parseInt ''30'' = 30"
    by (simp_all add: parseInt_def undigits_def digit_val_def)
  have n: "new_Date 2024 1 1 10 30 = 1706783400000"
    by code_simp
  show ?thesis
    by (simp add: getK6Balance_def getK6Balance_index_def b d p i n js_at_def parseFloat_value_def)
qed




text \<open>
  Claim C6. For an amount \<open>\<ge> 0\<close>, a price per meal \<open>> 0\<close> and any number of
  weekdays the report holds \<open>balanceInMeals = floor (amount / price)\<close>,
  \<open>mealsNeeded = weekdays - balanceInMeals\<close> and
  \<open>topupNeeded = mealsNeeded * price\<close>. src/unnamed/part_000 computes all three
  (\<open>computeReport_fields\<close>, \<open>computeReport_examples\<close>). src/index.js multiplies
  by the string of the environment and not by the price parsed from it: with
  \<open>PRICE_PER_MEAL\<close> set to \<open>25kr\<close> the price is 25, the string converts to \<open>NaN\<close>,
  and for the amount 130 and 3 weekdays the top-up is \<open>NaN\<close> where the claim
  and src/unnamed/part_000 give -50.
\<close>

theorem computeReport_index_env_string:
  "parseFloat_value (Some ''25kr'') = Num 25
   \<and> toNumber_value (Some ''25kr'') = NaN
   \<and> r_currentBalanceInNumberOfMeals
        (computeReport_index (parseFloat_value (Some ''25kr'')) (Some ''25kr'')
           \<lparr> currentBalance = Num 130, balanceCurrencyUnit = Some ''NOK'', lastToppedUpUTC = 0 \<rparr> 3)
      = Num 5
   \<and> r_mealsNeeded
        (computeReport_index (parseFloat_value (Some ''25kr'')) (Some ''25kr'')
           \<lparr> currentBalance = Num 130, balanceCurrencyUnit = Some ''NOK'', lastToppedUpUTC = 0 \<rparr> 3)
      = Num (- 2)
   \<and> r_topupNeeded
        (computeReport_index (parseFloat_value (Some ''25kr'')) (Some ''25kr'')
           \<lparr> currentBalance = Num 130, balanceCurrencyUnit = Some ''NOK'', lastToppedUpUTC = 0 \<rparr> 3)
      = NaN
   \<and> r_topupNeeded
        (computeReport (parseFloat_value (Some ''25kr''))
           \<lparr> currentBalance = Num 130, balanceCurrencyUnit = Some ''NOK'', lastToppedUpUTC = 0 \<rparr> 3)
      = Num (- 50)"
proof -
  have p: "parseFloat_value (Some ''25kr'') = Num 25"
    by (simp add: parse_eval js_eval)
  have n: "toNumber_value (Some ''25kr'') = NaN"
    by (simp add: parse_eval js_eval)
  have q: "js_floor (js_div (Num 130) (Num 25)) = Num 5"
    by (simp add: js_eval)
  have m: "js_sub (Num 3) (Num 5) = Num (- 2)"
    by (simp add: js_eval)
  have t: "js_mul (Num (- 2)) NaN = NaN" "js_mul (Num (- 2)) (Num 25) = Num (- 50)"
    by (simp_all add: js_eval)
  show ?thesis
    by (simp add: p n q m t computeReport_index_def computeReport_def Let_def)
qed

text \<open>
  Claim C7. At the start of the process a price per meal that is not a positive
  number, or a payment day outside 1 to 31, ends the program with a
  configuration error. The code tests neither: with the price \<open>0\<close> and the
  payment day \<open>45\<close>, on a host where \<open>app.listen\<close> succeeds, the server listens.
\<close>

theorem startup_no_validation_counterexample:
  "startup (\<lambda>port. None)
     (map_of [(''PAYMENT_DAY_IN_MONTH'', ''45''), (''PRICE_PER_MEAL'', ''0''),
        (''WEBSERVER_PORT'', ''3000'')])
   = Listening \<lparr> cfg_paymentDayInMonth = Some ''45'', cfg_pricePerMeal = Num 0,
                 cfg_port = Some ''3000'' \<rparr>"
proof -
  have "parseFloat ''0'' = Num 0"
    by (simp add: parse_eval js_eval)
  then show ?thesis
    by (simp add: startup_def parseFloat_value_def)
qed

text \<open>
  Claim C7, as the code has it. The price per meal and the payment day are
  not validated at the start: whether the program comes to listen, and the
  error it ends in if it does not, is the outcome of \<open>app.listen\<close> for
  \<open>WEBSERVER_PORT\<close> alone. Whatever \<open>PRICE_PER_MEAL\<close> and \<open>PAYMENT_DAY_IN_MONTH\<close>
  hold, or if they are missing, the start ends the same way.
\<close>

theorem startup_ignores_price_and_day:
  "(startup listen (env(''PRICE_PER_MEAL'' := price, ''PAYMENT_DAY_IN_MONTH'' := day))
      = Listen_failed err)
     = (listen (env ''WEBSERVER_PORT'') = Some err)
   \<and> (\<exists>c. startup listen (env(''PRICE_PER_MEAL'' := price, ''PAYMENT_DAY_IN_MONTH'' := day))
          = Listening c)
     = (listen (env ''WEBSERVER_PORT'') = None)"
  by (cases "listen (env ''WEBSERVER_PORT'')") (simp_all add: startup_def Let_def)




text \<open>
  Claim C9. \<open>calculateWeekdaysBetweenDates\<close> leaves \<open>from\<close> and \<open>to\<close> holding the
  dates they held before the call. The function of src/unnamed/part_000 moves
  \<open>to\<close> itself: called with \<open>from\<close> on 3 November 2026 at 10:00 and \<open>to\<close> on
  13 November, it leaves \<open>to\<close> on 3 November.
\<close>

theorem weekdays_moves_to_counterexample:
  "((\<lambda>r. 0)(0 := 20760 * msPerDay + 36000000, 1 := 20770 * msPerDay)) (1::nat) = 20770 * msPerDay
   \<and> snd (calculateWeekdaysBetweenDates 0 1
        ((\<lambda>r. 0)(0 := 20760 * msPerDay + 36000000, 1 := 20770 * msPerDay))) 1 = 20760 * msPerDay"
  by code_simp

text \<open>
  Claim C9, as the code has it. The function of src/unnamed/part_000 writes to
  the object \<open>to\<close> and to nothing else: after the call \<open>to\<close> lies one day back
  for each iteration, that is \<open>diff + 1\<close> days when \<open>diff \<ge> 0\<close>, and is unchanged
  when the loop does not run. The function of src/index.js leaves every moment
  as it was.
\<close>

theorem weekdays_heap_effect:
  "snd (calculateWeekdaysBetweenDates from_ref to_ref h) =
     h(to_ref := h to_ref - int (nat (moment_diff_days (h to_ref) (h from_ref) + 1)) * msPerDay)
   \<and> map_option snd
       (calculateWeekdaysBetweenDates_index holidays paymentDayInMonth now from_ref to_ref h)
     = Some h"
  using calculateWeekdaysBetweenDates_index_eq [of holidays paymentDayInMonth now from_ref to_ref h]
  by (auto simp: calculateWeekdaysBetweenDates_eq)

text \<open>
  Claim C10. For every holiday list (an array, so finite) and every starting
  date the backward walk of \<open>getNextPayDate\<close> ends: it stops after at most
  \<open>7 * length holidayArray + 6\<close> steps, and \<open>getNextPayDate\<close> returns a date.
\<close>

theorem payday_walk_terminates:
  "(\<exists>j \<le> 7 * length holidayArray + 6.
      payday_walk holidayArray t = Some (t - int j * msPerDay))
   \<and> (\<exists>r. getNextPayDate holidays paymentDayInMonth now = Some r)"
  using payday_walk_bound [of holidayArray t] getNextPayDate_returns [of holidays paymentDayInMonth now]
  by blast

end
